theory Spec2Isabelle
  imports Main
begin

section \<open>The retrain orchestrator (retrain.py)\<close>

text \<open>
  The program watches a dataset file, and when its checksum differs from the recorded
  marker it runs a training script, copies the produced model into a version store and
  records the checksum. Everything it does is file system traffic, so the model is a
  file system (a map from paths to entries) threaded through the functions, together
  with the outcome the world gives to each fallible operation (an \<open>env\<close>), and a log
  of the observable events, which the ordering properties are stated on.
\<close>

subsection \<open>Configuration (lines 24-33)\<close>

type_synonym path = string

definition DATA_PATH :: path where "DATA_PATH = ''data/add.csv''"
definition META_PATH :: path where "META_PATH = ''data/last_retrain.txt''"
definition MODELS_DIR :: path where "MODELS_DIR = ''models''"
definition MODEL_SRC :: path where "MODEL_SRC = ''model.pkl''"
definition TRAIN_SCRIPT :: path where "TRAIN_SCRIPT = ''train_model.py''"
definition LOCKFILE :: path where "LOCKFILE = ''.retrain.lock''"

text \<open>\<open>d / name\<close> of pathlib, and \<open>Path.parent\<close> (\<open>.\<close> for a path with no separator).\<close>

definition joinpath :: "path \<Rightarrow> string \<Rightarrow> path" where
  "joinpath d name = d @ ''/'' @ name"

definition parent :: "path \<Rightarrow> path" where
  "parent p =
     (if CHR ''/'' \<in> set p then rev (tl (dropWhile (\<lambda>c. c \<noteq> CHR ''/'') (rev p)))
      else ''.'')"

subsection \<open>The file system, events and exceptions\<close>

text \<open>
  An entry is a regular file with its content or a symbolic link with its target. The
  only link the program creates is the latest pointer, and the program never reads
  through it; the model does not resolve links: a link met where a file is read behaves
  as a link whose target cannot be read (an \<open>OSError\<close>). Directories are not entries:
  a directory that is missing or not writable shows as the failure of the operation
  that needed it.
\<close>

datatype node = File string | Link string

datatype event =
    is_Spawn: Spawn                \<comment> \<open>\<open>subprocess.run\<close> started the training child\<close>
  | is_Saved: Saved path           \<comment> \<open>\<open>shutil.copy2(src, dst)\<close> of the version completed\<close>
  | is_Meta_call: Meta_call string \<comment> \<open>\<open>write_meta_atomic\<close> was called with this value\<close>
  | is_Meta_ok: Meta_ok string     \<comment> \<open>its \<open>os.replace\<close> put this value at \<open>META_PATH\<close>\<close>

record world =
  files :: "path \<rightharpoonup> node"
  log :: "event list"

datatype exc = FileNotFoundError | FileExistsError | OSError | TimeoutExpired

definition emit :: "event \<Rightarrow> world \<Rightarrow> world" where
  "emit e w = w\<lparr>log := log w @ [e]\<rparr>"

definition put :: "path \<Rightarrow> node \<Rightarrow> world \<Rightarrow> world" where
  "put p n w = w\<lparr>files := (files w)(p \<mapsto> n)\<rparr>"

definition del :: "path \<Rightarrow> world \<Rightarrow> world" where
  "del p w = w\<lparr>files := (files w)(p := None)\<rparr>"

definition exists_path :: "world \<Rightarrow> path \<Rightarrow> bool" where
  "exists_path w p = (files w p \<noteq> None)"

subsection \<open>What the world decides\<close>

text \<open>
  \<open>wfault\<close>: where a call of \<open>write_meta_atomic\<close> fails, if it does.
  \<open>Write_fails k\<close>: the write raises after \<open>k\<close> characters reached the temporary file.
\<close>

datatype wfault =
  No_fault | Mkdir_fails | Mkstemp_fails | Open_fails | Write_fails nat | Replace_fails

record wenv =
  wfault :: wfault
  remove_err :: bool          \<comment> \<open>\<open>os.remove(tmp)\<close> in the \<open>finally\<close> block raises\<close>
  tmp_names :: "string list"  \<comment> \<open>the random suffixes \<open>mkstemp\<close> tries, in order\<close>

datatype copy_fault = Copy_ok | Copy_denied | Copy_partial nat

record completed =
  returncode :: int
  stdout :: string
  stderr :: string

text \<open>
  The training script is an opaque child process. By its contract it writes the model
  file \<open>MODEL_SRC\<close> and nothing else the orchestrator owns: the \<open>string option\<close> is the
  content it left at \<open>MODEL_SRC\<close> (\<open>None\<close>: it wrote nothing).
\<close>

datatype train_result =
    Launch_error                      \<comment> \<open>\<open>subprocess.run\<close> raises before a child runs\<close>
  | Timed_out "string option"         \<comment> \<open>\<open>subprocess.TimeoutExpired\<close>\<close>
  | Exited completed "string option"

record env =
  hexdigest :: "string \<Rightarrow> string"  \<comment> \<open>\<open>hashlib.md5(...).hexdigest()\<close> of a content\<close>
  data_read_err :: bool            \<comment> \<open>reading the dataset raises\<close>
  meta_read_err :: bool            \<comment> \<open>\<open>META_PATH.read_text()\<close> raises\<close>
  train :: train_result
  now :: string                    \<comment> \<open>\<open>datetime.utcnow().strftime("%Y%m%dT%H%M%SZ")\<close>\<close>
  copy_fault :: copy_fault         \<comment> \<open>the copy of the model into the store\<close>
  unlink_err :: bool               \<comment> \<open>\<open>latest.unlink()\<close> raises\<close>
  symlink_err :: bool              \<comment> \<open>\<open>os.symlink\<close> raises \<open>OSError\<close>\<close>
  latest_copy_fault :: copy_fault  \<comment> \<open>the fallback copy onto the latest pointer\<close>
  meta_env :: wenv                 \<comment> \<open>the cycle's call of \<open>write_meta_atomic\<close>\<close>
  pid :: string
  lock_open_err :: bool            \<comment> \<open>\<open>os.open\<close> of the lock raises something else\<close>
  lock_write_err :: bool           \<comment> \<open>writing the pid into the lock raises\<close>
  unlock_err :: bool               \<comment> \<open>\<open>LOCKFILE.unlink()\<close> raises\<close>

subsection \<open>Checksum and marker (lines 46-74)\<close>

definition file_md5 :: "env \<Rightarrow> world \<Rightarrow> path \<Rightarrow> exc + string" where
  "file_md5 e w p =
     (case files w p of
        None \<Rightarrow> Inl FileNotFoundError
      | Some (Link t) \<Rightarrow> Inl OSError
      | Some (File c) \<Rightarrow> if data_read_err e then Inl OSError else Inr (hexdigest e c))"

text \<open>
  \<open>str.isspace\<close> on the ASCII range: tab to carriage return, the four separators
  \<open>0x1c\<close> to \<open>0x1f\<close>, and the space. \<open>str.strip()\<close> drops such characters at both ends.
\<close>

definition isspace :: "char \<Rightarrow> bool" where
  "isspace c = (let n = (of_char c :: nat) in (9 \<le> n \<and> n \<le> 13) \<or> (28 \<le> n \<and> n \<le> 32))"

definition strip :: "string \<Rightarrow> string" where
  "strip s = rev (dropWhile isspace (rev (dropWhile isspace s)))"

definition read_meta :: "env \<Rightarrow> world \<Rightarrow> exc + string option" where
  "read_meta e w =
     (if \<not> exists_path w META_PATH then Inr None
      else case files w META_PATH of
             Some (File c) \<Rightarrow> if meta_read_err e then Inl OSError else Inr (Some (strip c))
           | _ \<Rightarrow> Inl OSError)"

text \<open>
  \<open>tempfile.mkstemp(dir=d)\<close> creates \<open>d/tmp\<close> followed by a suffix, for the first suffix whose
  name is free (\<open>O_EXCL\<close>), and raises \<open>FileExistsError\<close> when it runs out of them.
\<close>

definition tmp_file :: "path \<Rightarrow> string \<Rightarrow> path" where
  "tmp_file d suffix = joinpath d (''tmp'' @ suffix)"

fun mkstemp_pick :: "(path \<rightharpoonup> node) \<Rightarrow> path \<Rightarrow> string list \<Rightarrow> path option" where
  "mkstemp_pick fs d [] = None"
| "mkstemp_pick fs d (n # ns) =
     (if fs (tmp_file d n) = None then Some (tmp_file d n) else mkstemp_pick fs d ns)"

text \<open>The \<open>finally\<close> block of \<open>write_meta_atomic\<close>: a failing removal is swallowed.\<close>

definition cleanup_tmp :: "wenv \<Rightarrow> path \<Rightarrow> world \<Rightarrow> world" where
  "cleanup_tmp we tmp w =
     (if exists_path w tmp then (if remove_err we then w else del tmp w) else w)"

definition write_meta_atomic :: "wenv \<Rightarrow> string \<Rightarrow> world \<Rightarrow> (exc + unit) \<times> world" where
  "write_meta_atomic we md5 w0 =
     (let w = emit (Meta_call md5) w0 in
      if wfault we = Mkdir_fails then (Inl OSError, w)
      else if wfault we = Mkstemp_fails then (Inl OSError, w)
      else case mkstemp_pick (files w) (parent META_PATH) (tmp_names we) of
             None \<Rightarrow> (Inl FileExistsError, w)
           | Some tmp \<Rightarrow>
               (let w1 = put tmp (File []) w in
                case wfault we of
                  Open_fails \<Rightarrow> (Inl OSError, cleanup_tmp we tmp w1)
                | Write_fails k \<Rightarrow>
                    (Inl OSError, cleanup_tmp we tmp (put tmp (File (take k md5)) w1))
                | Replace_fails \<Rightarrow>
                    (Inl OSError, cleanup_tmp we tmp (put tmp (File md5) w1))
                | _ \<Rightarrow>
                    (Inr (), cleanup_tmp we tmp
                       (emit (Meta_ok md5)
                          (put META_PATH (File md5) (del tmp (put tmp (File md5) w1)))))))"

subsection \<open>The run lock (lines 77-100)\<close>

definition acquire_lock :: "env \<Rightarrow> world \<Rightarrow> bool \<times> world" where
  "acquire_lock e w =
     (if exists_path w LOCKFILE then (False, w)
      else if lock_open_err e then (False, w)
      else if lock_write_err e then (False, put LOCKFILE (File []) w)
      else (True, put LOCKFILE (File (pid e @ [CHR 0x0A])) w))"

definition release_lock :: "env \<Rightarrow> world \<Rightarrow> world" where
  "release_lock e w =
     (if exists_path w LOCKFILE then (if unlock_err e then w else del LOCKFILE w) else w)"

subsection \<open>Training and versioning (lines 103-151)\<close>

definition child_wrote :: "string option \<Rightarrow> world \<Rightarrow> world" where
  "child_wrote a w = (case a of None \<Rightarrow> w | Some c \<Rightarrow> put MODEL_SRC (File c) w)"

definition run_training_script :: "env \<Rightarrow> world \<Rightarrow> (exc + completed) \<times> world" where
  "run_training_script e w =
     (if \<not> exists_path w TRAIN_SCRIPT then (Inl FileNotFoundError, w)
      else case train e of
             Launch_error \<Rightarrow> (Inl OSError, w)
           | Timed_out a \<Rightarrow> (Inl TimeoutExpired, child_wrote a (emit Spawn w))
           | Exited proc a \<Rightarrow> (Inr proc, child_wrote a (emit Spawn w)))"

text \<open>
  \<open>shutil.copy2\<close>: the destination is created or overwritten; a failing copy may leave
  a prefix of the content there.
\<close>

definition copy2 :: "copy_fault \<Rightarrow> path \<Rightarrow> path \<Rightarrow> world \<Rightarrow> (exc + unit) \<times> world" where
  "copy2 cf src dst w =
     (if src = dst then (Inl OSError, w)
      else case files w src of
             None \<Rightarrow> (Inl FileNotFoundError, w)
           | Some (Link t) \<Rightarrow> (Inl OSError, w)
           | Some (File c) \<Rightarrow>
               (case cf of
                  Copy_ok \<Rightarrow> (Inr (), put dst (File c) w)
                | Copy_denied \<Rightarrow> (Inl OSError, w)
                | Copy_partial k \<Rightarrow> (Inl OSError, put dst (File (take k c)) w)))"

text \<open>
  Lines 137-149: the latest pointer. Every exception in there is caught and logged, so
  the block returns a world only.
\<close>

definition update_latest :: "env \<Rightarrow> path \<Rightarrow> string \<Rightarrow> world \<Rightarrow> world" where
  "update_latest e dst_dir name w =
     (let latest = joinpath dst_dir ''latest_model.pkl'' in
      if exists_path w latest \<and> unlink_err e then w
      else let w1 = (if exists_path w latest then del latest w else w) in
           if \<not> symlink_err e then put latest (Link name) w1
           else snd (copy2 (latest_copy_fault e) (joinpath dst_dir name) latest w1))"

definition save_model_version :: "env \<Rightarrow> path \<Rightarrow> path \<Rightarrow> world \<Rightarrow> (exc + path) \<times> world" where
  "save_model_version e dst_dir src w =
     (if \<not> exists_path w src then (Inl FileNotFoundError, w)
      else let name = ''model_'' @ now e @ ''.pkl'';
               dst = joinpath dst_dir name
           in case copy2 (copy_fault e) src dst w of
                (Inl x, w1) \<Rightarrow> (Inl x, w1)
              | (Inr u, w1) \<Rightarrow> (Inr dst, update_latest e dst_dir name (emit (Saved dst) w1)))"

subsection \<open>One cycle, the watch loop and main (lines 154-254)\<close>

text \<open>
  \<open>Inl x\<close> is an exception that leaves \<open>retrain_once\<close>; \<open>Inr b\<close> is its return value.
  The call of \<open>read_meta\<close> stands outside every \<open>try\<close> of the source.
\<close>

definition retrain_once :: "env \<Rightarrow> world \<Rightarrow> (exc + bool) \<times> world" where
  "retrain_once e w =
     (if \<not> exists_path w DATA_PATH then (Inr False, w)
      else case file_md5 e w DATA_PATH of
             Inl x \<Rightarrow> (Inr False, w)
           | Inr current_md5 \<Rightarrow>
               (case read_meta e w of
                  Inl x \<Rightarrow> (Inl x, w)
                | Inr last_md5 \<Rightarrow>
                    if Some current_md5 = last_md5 then (Inr False, w)
                    else (case run_training_script e w of
                            (Inl x, w1) \<Rightarrow> (Inr False, w1)
                          | (Inr proc, w1) \<Rightarrow>
                              if returncode proc \<noteq> 0 then (Inr False, w1)
                              else (case save_model_version e MODELS_DIR MODEL_SRC w1 of
                                      (Inl x, w2) \<Rightarrow> (Inr False, w2)
                                    | (Inr dst, w2) \<Rightarrow>
                                        (Inr True,
                                         snd (write_meta_atomic (meta_env e) current_md5 w2))))))"

text \<open>
  The loop runs until the user interrupts it: the list holds what the world decides in
  each poll, and its end is the \<open>KeyboardInterrupt\<close> that arrives during the sleep. An
  exception out of a cycle passes the \<open>finally\<close> (the lock is released) and ends the
  loop with the polls that were left unserved.
\<close>

fun watch_loop :: "env list \<Rightarrow> world \<Rightarrow> (exc + unit) \<times> world" where
  "watch_loop [] w = (Inr (), w)"
| "watch_loop (e # es) w =
     (case acquire_lock e w of
        (True, w1) \<Rightarrow>
          (case retrain_once e w1 of
             (Inl x, w2) \<Rightarrow> (Inl x, release_lock e w2)
           | (Inr b, w2) \<Rightarrow> watch_loop es (release_lock e w2))
      | (False, w1) \<Rightarrow> watch_loop es w1)"

record args =
  watch :: bool
  interval :: int
  once :: bool

text \<open>
  \<open>main\<close>: \<open>fe\<close> decides the forced write of the sentinel, \<open>e\<close> the single cycle,
  \<open>polls\<close> the cycles of watch mode.
\<close>

definition main :: "args \<Rightarrow> wenv \<Rightarrow> env \<Rightarrow> env list \<Rightarrow> world \<Rightarrow> (exc + unit) \<times> world" where
  "main a fe e polls w =
     (if watch a then watch_loop polls w
      else case acquire_lock e w of
             (False, w1) \<Rightarrow> (Inr (), w1)
           | (True, w1) \<Rightarrow>
               if once a then
                 (case write_meta_atomic fe ''__FORCE__'' w1 of
                    (Inl x, w2) \<Rightarrow> (Inl x, release_lock e w2)
                  | (Inr u, w2) \<Rightarrow>
                      (case retrain_once e w2 of
                         (Inl x, w3) \<Rightarrow> (Inl x, release_lock e w3)
                       | (Inr b, w3) \<Rightarrow> (Inr (), release_lock e w3)))
               else
                 (case retrain_once e w1 of
                    (Inl x, w3) \<Rightarrow> (Inl x, release_lock e w3)
                  | (Inr b, w3) \<Rightarrow> (Inr (), release_lock e w3)))"

subsection \<open>Notions the properties are stated with\<close>

text \<open>The events one call of \<open>retrain_once\<close>, or one run of \<open>main\<close>, adds to the log.\<close>

definition cycle_events :: "env \<Rightarrow> world \<Rightarrow> event list" where
  "cycle_events e w = drop (length (log w)) (log (snd (retrain_once e w)))"

definition main_events :: "args \<Rightarrow> wenv \<Rightarrow> env \<Rightarrow> env list \<Rightarrow> world \<Rightarrow> event list" where
  "main_events a fe e polls w = drop (length (log w)) (log (snd (main a fe e polls w)))"

text \<open>
  The cycles a watch loop runs, each by the events it adds: a poll that gets the lock
  runs \<open>retrain_once\<close> in the world \<open>acquire_lock\<close> left, and the loop goes on from the
  world \<open>release_lock\<close> left unless the cycle raised; a poll that finds the lock held
  runs no cycle.
\<close>

fun watch_cycles :: "env list \<Rightarrow> world \<Rightarrow> event list list" where
  "watch_cycles [] w = []"
| "watch_cycles (e # es) w =
     (if fst (acquire_lock e w) then
        cycle_events e (snd (acquire_lock e w)) #
        (case fst (retrain_once e (snd (acquire_lock e w))) of
           Inl x \<Rightarrow> []
         | Inr b \<Rightarrow>
             watch_cycles es (release_lock e (snd (retrain_once e (snd (acquire_lock e w))))))
      else watch_cycles es (snd (acquire_lock e w)))"

text \<open>
  \<open>save_first saved es\<close>: in \<open>es\<close> every call of the metadata write comes after a
  completed save (\<open>saved\<close>: one has completed before \<open>es\<close>).
\<close>

fun save_first :: "bool \<Rightarrow> event list \<Rightarrow> bool" where
  "save_first saved [] = True"
| "save_first saved (Saved p # es) = save_first True es"
| "save_first saved (Meta_call v # es) = (saved \<and> save_first saved es)"
| "save_first saved (Spawn # es) = save_first saved es"
| "save_first saved (Meta_ok v # es) = save_first saved es"

text \<open>The versions in the store, by their timestamps: the files \<open>models/model_<ts>.pkl\<close>.\<close>

definition version_path :: "string \<Rightarrow> path" where
  "version_path ts = joinpath MODELS_DIR (''model_'' @ ts @ ''.pkl'')"

definition versions :: "(path \<rightharpoonup> node) \<Rightarrow> string set" where
  "versions fs = {ts. fs (version_path ts) \<noteq> None}"

text \<open>The form of a fingerprint: the 32 lower-case hexadecimal digits of an MD5 digest.\<close>

definition hexdigit :: "char \<Rightarrow> bool" where
  "hexdigit c = (c \<in> set ''0123456789abcdef'')"

definition fingerprint_form :: "string \<Rightarrow> bool" where
  "fingerprint_form s = (length s = 32 \<and> list_all hexdigit s)"

text \<open>Training failed: the launcher raised, or the child exited with a non-zero code.\<close>

definition training_failed :: "env \<Rightarrow> world \<Rightarrow> bool" where
  "training_failed e w =
     (case fst (run_training_script e w) of Inl x \<Rightarrow> True | Inr proc \<Rightarrow> returncode proc \<noteq> 0)"

subsection \<open>A concrete world\<close>

text \<open>
  A world in which nothing fails: the child exits 0 and leaves a model file. The
  digest stands for that of the one dataset content used below.
\<close>

definition wenv_ok :: wenv where
  "wenv_ok = \<lparr>wfault = No_fault, remove_err = False, tmp_names = [''k3x9q2ab'']\<rparr>"

definition env_ok :: env where
  "env_ok =
     \<lparr>hexdigest = (\<lambda>c. ''900150983cd24fb0d6963f7d28e17f72''),
      data_read_err = False, meta_read_err = False,
      train = Exited \<lparr>returncode = 0, stdout = [], stderr = []\<rparr> (Some ''pickle''),
      now = ''20240101T000000Z'', copy_fault = Copy_ok, unlink_err = False,
      symlink_err = False, latest_copy_fault = Copy_ok, meta_env = wenv_ok,
      pid = ''4242'', lock_open_err = False, lock_write_err = False, unlock_err = False\<rparr>"

text \<open>A first run: the dataset and the training script are there, nothing else is.\<close>

definition world_new :: world where
  "world_new =
     \<lparr>files = [DATA_PATH \<mapsto> File ''tv,radio,sales'', TRAIN_SCRIPT \<mapsto> File ''fit()''],
      log = []\<rparr>"

text \<open>After a successful cycle on that dataset: the marker holds its fingerprint.\<close>

definition world_trained :: world where
  "world_trained =
     \<lparr>files = [DATA_PATH \<mapsto> File ''tv,radio,sales'', TRAIN_SCRIPT \<mapsto> File ''fit()'',
               META_PATH \<mapsto> File ''900150983cd24fb0d6963f7d28e17f72''],
      log = []\<rparr>"

text \<open>A store that already holds a version named by the second \<open>now env_ok\<close>.\<close>

definition world_same_second :: world where
  "world_same_second =
     \<lparr>files = [DATA_PATH \<mapsto> File ''tv,radio,sales'', TRAIN_SCRIPT \<mapsto> File ''fit()'',
               version_path ''20240101T000000Z'' \<mapsto> File ''older''],
      log = []\<rparr>"

text \<open>The marker of an earlier cycle is there, the dataset is gone.\<close>

definition world_no_dataset :: world where
  "world_no_dataset =
     \<lparr>files = [TRAIN_SCRIPT \<mapsto> File ''fit()'',
               META_PATH \<mapsto> File ''900150983cd24fb0d6963f7d28e17f72''],
      log = []\<rparr>"

definition env_exit1 :: env where
  "env_exit1 = env_ok\<lparr>train := Exited \<lparr>returncode = 1, stdout = [], stderr = ''Traceback''\<rparr> None\<rparr>"

definition env_replace_fails :: env where
  "env_replace_fails = env_ok\<lparr>meta_env := wenv_ok\<lparr>wfault := Replace_fails\<rparr>\<rparr>"

definition env_marker_unreadable :: env where
  "env_marker_unreadable = env_ok\<lparr>meta_read_err := True\<rparr>"

definition wenv_write_fails :: wenv where
  "wenv_write_fails = wenv_ok\<lparr>wfault := Write_fails 4\<rparr>"

definition wenv_remove_fails :: wenv where
  "wenv_remove_fails = wenv_ok\<lparr>wfault := Write_fails 4, remove_err := True\<rparr>"

definition args_single :: args where
  "args_single = \<lparr>watch = False, interval = 300, once = False\<rparr>"

definition args_forced :: args where
  "args_forced = \<lparr>watch = False, interval = 300, once = True\<rparr>"

definition args_watch :: args where
  "args_watch = \<lparr>watch = True, interval = 300, once = False\<rparr>"

section \<open>Properties\<close>

subsection \<open>The marker file\<close>

lemma parent_META_PATH: "parent META_PATH = ''data''"
  by (simp add: parent_def META_PATH_def)

lemma mkstemp_pick_Some:
  "mkstemp_pick fs d ns = Some p \<Longrightarrow> fs p = None \<and> (\<exists>n. n \<in> set ns \<and> p = tmp_file d n)"
  by (induction ns) (auto split: if_splits)

lemma tmp_neq_META: "tmp_file (parent META_PATH) n \<noteq> META_PATH"
  unfolding parent_META_PATH by (simp add: tmp_file_def joinpath_def META_PATH_def)

lemma mkstemp_pick_neq_META:
  "mkstemp_pick fs (parent META_PATH) ns = Some p \<Longrightarrow> p \<noteq> META_PATH"
  by (auto dest!: mkstemp_pick_Some simp: tmp_neq_META)

lemma wma_log:
  "log (snd (write_meta_atomic we v w)) =
     log w @ Meta_call v # (if fst (write_meta_atomic we v w) = Inr () then [Meta_ok v] else [])"
  by (auto simp: write_meta_atomic_def Let_def cleanup_tmp_def emit_def put_def del_def exists_path_def
      split: option.splits wfault.splits)

lemma wma_meta:
  "files (snd (write_meta_atomic we v w)) META_PATH =
     (if fst (write_meta_atomic we v w) = Inr () then Some (File v) else files w META_PATH)"
  by (auto simp: write_meta_atomic_def Let_def cleanup_tmp_def emit_def put_def del_def exists_path_def
      dest: mkstemp_pick_neq_META split: option.splits wfault.splits)

lemma wma_frame:
  "p \<noteq> META_PATH \<Longrightarrow> fst (write_meta_atomic we v w) = Inr () \<or> \<not> remove_err we \<Longrightarrow>
   files (snd (write_meta_atomic we v w)) p = files w p"
  by (auto simp: write_meta_atomic_def Let_def cleanup_tmp_def emit_def put_def del_def exists_path_def
      dest: mkstemp_pick_Some split: option.splits wfault.splits)

lemma files_emit [simp]: "files (emit e w) = files w"
  by (simp add: emit_def)

lemma wma_touched:
  assumes "files (snd (write_meta_atomic we v w)) p \<noteq> files w p"
  shows "p = META_PATH \<or> (\<exists>n. n \<in> set (tmp_names we) \<and> p = tmp_file (parent META_PATH) n)"
proof (cases "mkstemp_pick (files w) (parent META_PATH) (tmp_names we)")
  case None
  with assms show ?thesis
    by (simp add: write_meta_atomic_def Let_def emit_def split: if_splits)
next
  case (Some tmp)
  from mkstemp_pick_Some[OF Some] obtain n where n: "n \<in> set (tmp_names we)"
    "tmp = tmp_file (parent META_PATH) n" by blast
  have "p = META_PATH \<or> p = tmp"
    using assms Some
    by (auto simp: write_meta_atomic_def Let_def cleanup_tmp_def emit_def put_def del_def exists_path_def
        split: wfault.splits if_splits)
  with n show ?thesis by blast
qed

subsection \<open>Paths, and what each operation changes\<close>

lemma tmp_file_META: "tmp_file (parent META_PATH) n = ''data/tmp'' @ n"
  by (simp add: parent_META_PATH tmp_file_def joinpath_def)

lemma version_path_eq: "version_path ts = ''models/model_'' @ ts @ ''.pkl''"
  by (simp add: version_path_def joinpath_def MODELS_DIR_def)

lemma latest_eq: "joinpath MODELS_DIR ''latest_model.pkl'' = ''models/latest_model.pkl''"
  by (simp add: joinpath_def MODELS_DIR_def)

lemma version_path_inj: "(version_path a = version_path b) = (a = b)"
  by (simp add: version_path_eq)

lemma version_path_neq:
  "version_path ts \<noteq> META_PATH" "version_path ts \<noteq> MODEL_SRC"
  "version_path ts \<noteq> joinpath MODELS_DIR ''latest_model.pkl''"
  "version_path ts \<noteq> tmp_file (parent META_PATH) n"
  "version_path ts \<noteq> LOCKFILE"
  unfolding tmp_file_META
  by (simp_all add: version_path_eq latest_eq META_PATH_def MODEL_SRC_def LOCKFILE_def)

lemma MODEL_SRC_neq:
  "MODEL_SRC \<noteq> META_PATH" "MODEL_SRC \<noteq> joinpath MODELS_DIR ''latest_model.pkl''"
  "MODEL_SRC \<noteq> tmp_file (parent META_PATH) n" "MODEL_SRC \<noteq> version_path ts"
  unfolding tmp_file_META
  by (simp_all add: version_path_eq latest_eq META_PATH_def MODEL_SRC_def)

lemma META_PATH_neq:
  "META_PATH \<noteq> MODEL_SRC" "META_PATH \<noteq> joinpath MODELS_DIR ''latest_model.pkl''"
  "META_PATH \<noteq> version_path ts" "META_PATH \<noteq> LOCKFILE"
  by (simp_all add: version_path_eq latest_eq META_PATH_def MODEL_SRC_def LOCKFILE_def)

lemma rts_files: "p \<noteq> MODEL_SRC \<Longrightarrow> files (snd (run_training_script e w)) p = files w p"
  by (auto simp: run_training_script_def child_wrote_def put_def emit_def
      split: train_result.splits option.splits)

lemma rts_log:
  "log (snd (run_training_script e w)) = log w \<or>
   log (snd (run_training_script e w)) = log w @ [Spawn]"
  by (auto simp: run_training_script_def child_wrote_def put_def emit_def
      split: train_result.splits option.splits)

lemma rts_Inr:
  "run_training_script e w = (Inr proc, w1) \<Longrightarrow> log w1 = log w @ [Spawn]"
  by (auto simp: run_training_script_def child_wrote_def put_def emit_def
      split: train_result.splits option.splits if_splits)

lemma copy2_Inl:
  "copy2 cf src dst w = (Inl x, w') \<Longrightarrow> log w' = log w \<and> (\<forall>p. p \<noteq> dst \<longrightarrow> files w' p = files w p)"
  by (auto simp: copy2_def put_def split: if_splits option.splits node.splits copy_fault.splits)

lemma copy2_Inr:
  "copy2 cf src dst w = (Inr u, w') \<Longrightarrow>
   log w' = log w \<and> (\<exists>c. files w src = Some (File c) \<and> w' = put dst (File c) w)"
  by (auto simp: copy2_def put_def split: if_splits option.splits node.splits copy_fault.splits)

lemma update_latest_log: "log (update_latest e d name w) = log w"
  by (auto simp: update_latest_def Let_def copy2_def put_def del_def
      split: option.splits node.splits copy_fault.splits)

lemma update_latest_files:
  "p \<noteq> joinpath d ''latest_model.pkl'' \<Longrightarrow> files (update_latest e d name w) p = files w p"
  by (auto simp: update_latest_def Let_def copy2_def put_def del_def
      split: option.splits node.splits copy_fault.splits)

lemma smv_Inl:
  assumes "save_model_version e d src w = (Inl x, w')"
  shows "log w' = log w \<and> (\<forall>p. p \<noteq> joinpath d (''model_'' @ now e @ ''.pkl'') \<longrightarrow> files w' p = files w p)"
  using assms
  by (auto simp: save_model_version_def Let_def split: if_splits prod.splits sum.splits
      dest!: copy2_Inl)

lemma smv_Inr:
  assumes "save_model_version e d src w = (Inr dst, w')"
  shows "dst = joinpath d (''model_'' @ now e @ ''.pkl'') \<and> log w' = log w @ [Saved dst] \<and>
    (\<exists>c. files w src = Some (File c) \<and> files w' dst = Some (File c)) \<and>
    (\<forall>p. p \<noteq> dst \<and> p \<noteq> joinpath d ''latest_model.pkl'' \<longrightarrow> files w' p = files w p)"
proof -
  let ?name = "''model_'' @ now e @ ''.pkl''"
  let ?dst = "joinpath d ?name"
  from assms obtain u w1 where c: "copy2 (copy_fault e) src ?dst w = (Inr u, w1)"
    and d: "dst = ?dst" and w': "w' = update_latest e d ?name (emit (Saved ?dst) w1)"
    by (auto simp: save_model_version_def Let_def split: if_splits prod.splits sum.splits)
  from copy2_Inr[OF c] obtain c where l: "log w1 = log w" and s: "files w src = Some (File c)"
    and w1: "w1 = put ?dst (File c) w" by blast
  have neq: "?dst \<noteq> joinpath d ''latest_model.pkl''" by (simp add: joinpath_def)
  show ?thesis
    using d l s neq
    by (simp add: w' update_latest_log update_latest_files w1 emit_def put_def)
qed

lemma retrain_once_elim:
  assumes "retrain_once e w = (r, w')"
  obtains
    (noop) "r = Inr False" "w' = w"
      "\<not> exists_path w DATA_PATH \<or> (\<exists>x. file_md5 e w DATA_PATH = Inl x) \<or>
       (\<exists>cur. file_md5 e w DATA_PATH = Inr cur \<and> read_meta e w = Inr (Some cur))"
  | (raised) x where "read_meta e w = Inl x" "r = Inl x" "w' = w"
  | (train_failed) m where "read_meta e w = Inr m" "training_failed e w" "r = Inr False"
      "w' = snd (run_training_script e w)"
  | (save_failed) proc w1 x where "run_training_script e w = (Inr proc, w1)"
      "returncode proc = 0" "save_model_version e MODELS_DIR MODEL_SRC w1 = (Inl x, w')"
      "r = Inr False"
  | (saved) cur m proc w1 dst w2 where "file_md5 e w DATA_PATH = Inr cur"
      "read_meta e w = Inr m" "Some cur \<noteq> m"
      "run_training_script e w = (Inr proc, w1)" "returncode proc = 0"
      "save_model_version e MODELS_DIR MODEL_SRC w1 = (Inr dst, w2)" "r = Inr True"
      "w' = snd (write_meta_atomic (meta_env e) cur w2)"
proof (cases "exists_path w DATA_PATH")
  case False
  with assms show thesis by (intro noop) (simp_all add: retrain_once_def)
next
  case d: True
  show thesis
  proof (cases "file_md5 e w DATA_PATH")
    case (Inl x)
    with assms d show thesis by (intro noop) (simp_all add: retrain_once_def)
  next
    case cur: (Inr cur)
    show thesis
    proof (cases "read_meta e w")
      case (Inl x)
      with assms d cur show thesis by (intro raised[of x]) (simp_all add: retrain_once_def)
    next
      case m: (Inr m)
      show thesis
      proof (cases "Some cur = m")
        case True
        with assms d cur m show thesis by (intro noop) (simp_all add: retrain_once_def)
      next
        case ne: False
        obtain t w1 where rts: "run_training_script e w = (t, w1)"
          by (cases "run_training_script e w")
        show thesis
        proof (cases t)
          case (Inl x)
          with assms d cur m ne rts show thesis
            by (intro train_failed[of m]) (simp_all add: retrain_once_def training_failed_def)
        next
          case proc: (Inr proc)
          show thesis
          proof (cases "returncode proc = 0")
            case False
            with assms d cur m ne rts proc show thesis
              by (intro train_failed[of m]) (simp_all add: retrain_once_def training_failed_def)
          next
            case rc: True
            obtain s w2 where smv: "save_model_version e MODELS_DIR MODEL_SRC w1 = (s, w2)"
              by (cases "save_model_version e MODELS_DIR MODEL_SRC w1")
            show thesis
            proof (cases s)
              case (Inl x)
              with assms d cur m ne rts proc rc smv show thesis
                by (intro save_failed[of proc w1 x]) (simp_all add: retrain_once_def)
            next
              case (Inr dst)
              with assms d cur m ne rts proc rc smv show thesis
                by (intro saved[of cur m proc w1 dst w2]) (simp_all add: retrain_once_def)
            qed
          qed
        qed
      qed
    qed
  qed
qed

subsection \<open>Reading the marker back\<close>

lemma hexdigit_not_space: "hexdigit c \<Longrightarrow> \<not> isspace c"
  by (auto simp: hexdigit_def isspace_def)

lemma dropWhile_none: "(\<And>c. c \<in> set xs \<Longrightarrow> \<not> P c) \<Longrightarrow> dropWhile P xs = xs"
  by (cases xs) auto

lemma strip_id:
  assumes "\<And>c. c \<in> set s \<Longrightarrow> \<not> isspace c"
  shows "strip s = s"
proof -
  have "dropWhile isspace s = s" using assms by (rule dropWhile_none)
  moreover have "dropWhile isspace (rev s) = rev s" using assms by (intro dropWhile_none) simp
  ultimately show ?thesis by (simp add: strip_def)
qed

lemma strip_fingerprint: "fingerprint_form s \<Longrightarrow> strip s = s"
  by (rule strip_id) (auto simp: fingerprint_form_def list_all_iff hexdigit_not_space)

text \<open>
  C9. A fingerprint written by \<open>write_meta_atomic\<close> is what \<open>read_meta\<close> reads next: when the
  write returns normally and the read does not raise, the read yields exactly the
  string that was written (\<open>strip\<close> leaves a string of hexadecimal digits as it is).
\<close>

theorem read_after_write:
  assumes "fst (write_meta_atomic we s w) = Inr ()" and "fingerprint_form s"
    and "\<not> meta_read_err e"
  shows "read_meta e (snd (write_meta_atomic we s w)) = Inr (Some s)"
  using assms wma_meta[of we s w]
  by (simp add: read_meta_def exists_path_def strip_fingerprint)


theorem read_after_write_witness:
  "fst (write_meta_atomic wenv_ok ''900150983cd24fb0d6963f7d28e17f72'' world_new) = Inr ()
   \<and> fingerprint_form ''900150983cd24fb0d6963f7d28e17f72''
   \<and> \<not> meta_read_err env_ok
   \<and> read_meta env_ok (snd (write_meta_atomic wenv_ok ''900150983cd24fb0d6963f7d28e17f72'' world_new))
       = Inr (Some ''900150983cd24fb0d6963f7d28e17f72'')"
proof -
  have 1: "fst (write_meta_atomic wenv_ok ''900150983cd24fb0d6963f7d28e17f72'' world_new) = Inr ()"
    by (simp add: write_meta_atomic_def wenv_ok_def world_new_def Let_def emit_def put_def del_def
        cleanup_tmp_def exists_path_def tmp_file_def joinpath_def parent_META_PATH
        DATA_PATH_def TRAIN_SCRIPT_def META_PATH_def)
  have 2: "fingerprint_form ''900150983cd24fb0d6963f7d28e17f72''"
    by (simp add: fingerprint_form_def hexdigit_def)
  have 3: "\<not> meta_read_err env_ok" by (simp add: env_ok_def)
  from read_after_write[OF 1 2 3] 1 2 3 show ?thesis by simp
qed

subsection \<open>One cycle\<close>

lemma cycle_events_app:
  "log (snd (retrain_once e w)) = log w @ es \<Longrightarrow> cycle_events e w = es"
  by (simp add: cycle_events_def)

text \<open>
  C5. When the fingerprint of the dataset equals the stored marker, \<open>retrain_once\<close>
  returns \<open>False\<close> and leaves the world as it was: no file is written (the marker and
  the version store included) and no event is logged, so no subprocess was started.
\<close>

theorem unchanged_dataset_is_noop:
  assumes "file_md5 e w DATA_PATH = Inr d" and "read_meta e w = Inr (Some d)"
  shows "retrain_once e w = (Inr False, w) \<and> cycle_events e w = []"
proof -
  from assms(1) have "exists_path w DATA_PATH"
    by (auto simp: file_md5_def exists_path_def split: option.splits)
  with assms have "retrain_once e w = (Inr False, w)"
    by (simp add: retrain_once_def)
  then show ?thesis by (simp add: cycle_events_def)
qed

lemma failed_training_frame:
  assumes "training_failed e w" and "read_meta e w = Inr m"
  shows "fst (retrain_once e w) = Inr False"
    and "p \<noteq> MODEL_SRC \<Longrightarrow> files (snd (retrain_once e w)) p = files w p"
    and "cycle_events e w = [] \<or> cycle_events e w = [Spawn]"
proof -
  obtain r w' where rw: "retrain_once e w = (r, w')" by (cases "retrain_once e w")
  then have "r = Inr False \<and> (p \<noteq> MODEL_SRC \<longrightarrow> files w' p = files w p) \<and>
             (log w' = log w \<or> log w' = log w @ [Spawn])"
  proof (cases rule: retrain_once_elim)
    case noop
    then show ?thesis by simp
  next
    case (raised x)
    with assms show ?thesis by simp
  next
    case (train_failed m)
    then show ?thesis using rts_files[of p e w] rts_log[of e w] by simp
  next
    case (save_failed proc w1 x)
    with assms show ?thesis by (simp add: training_failed_def)
  next
    case (saved cur m proc w1 dst w2)
    with assms show ?thesis by (simp add: training_failed_def)
  qed
  with rw show "fst (retrain_once e w) = Inr False"
    and "p \<noteq> MODEL_SRC \<Longrightarrow> files (snd (retrain_once e w)) p = files w p"
    and "cycle_events e w = [] \<or> cycle_events e w = [Spawn]"
    by (auto simp: cycle_events_def)
qed

text \<open>
  C7. When training fails (the script is missing, the launch raises, the child times
  out or exits with a non-zero code), \<open>retrain_once\<close> returns \<open>False\<close>, the marker file
  and the version store are as before the cycle, and so is every path but the child's
  own output file; nothing was saved and the metadata write was not called.
\<close>

theorem failed_training_mutates_nothing:
  assumes "training_failed e w" and "read_meta e w = Inr m"
  shows "fst (retrain_once e w) = Inr False
    \<and> files (snd (retrain_once e w)) META_PATH = files w META_PATH
    \<and> versions (files (snd (retrain_once e w))) = versions (files w)
    \<and> (\<forall>p. p \<noteq> MODEL_SRC \<longrightarrow> files (snd (retrain_once e w)) p = files w p)
    \<and> \<not> list_ex is_Saved (cycle_events e w) \<and> \<not> list_ex is_Meta_call (cycle_events e w)"
proof -
  note f = failed_training_frame[OF assms]
  have "versions (files (snd (retrain_once e w))) = versions (files w)"
    by (simp add: versions_def f(2) version_path_neq)
  moreover have "files (snd (retrain_once e w)) META_PATH = files w META_PATH"
    by (simp add: f(2) META_PATH_neq)
  moreover have "\<not> list_ex is_Saved (cycle_events e w) \<and> \<not> list_ex is_Meta_call (cycle_events e w)"
    using f(3) by auto
  ultimately show ?thesis using f(1,2) by simp
qed

lemma dst_is_version_path:
  "joinpath MODELS_DIR (''model_'' @ now e @ ''.pkl'') = version_path (now e)"
  by (simp add: version_path_def)

lemma retrain_once_True:
  assumes "retrain_once e w = (Inr True, w')"
  obtains cur w2 where "file_md5 e w DATA_PATH = Inr cur"
    and "w' = snd (write_meta_atomic (meta_env e) cur w2)"
    and "log w2 = log w @ [Spawn, Saved (version_path (now e))]"
    and "\<exists>c. files w2 (version_path (now e)) = Some (File c) \<and> files w2 MODEL_SRC = Some (File c)"
    and "\<And>ts. (files w2 (version_path ts) \<noteq> None) = (ts = now e \<or> files w (version_path ts) \<noteq> None)"
    and "files w2 META_PATH = files w META_PATH"
  using assms
proof (cases rule: retrain_once_elim)
  case (saved cur m proc w1 dst w2)
  note s = smv_Inr[OF saved(6), unfolded dst_is_version_path]
  from s have dst: "dst = version_path (now e)" by simp
  from s obtain c where c: "files w1 MODEL_SRC = Some (File c)"
    "files w2 (version_path (now e)) = Some (File c)" using dst by auto
  from s have fr: "\<And>p. p \<noteq> version_path (now e) \<Longrightarrow>
      p \<noteq> joinpath MODELS_DIR ''latest_model.pkl'' \<Longrightarrow> files w2 p = files w1 p"
    using dst by simp
  have w1: "\<And>p. p \<noteq> MODEL_SRC \<Longrightarrow> files w1 p = files w p"
    using rts_files[of _ e w] saved(4) by simp
  have 1: "log w2 = log w @ [Spawn, Saved (version_path (now e))]"
    using s rts_Inr[OF saved(4)] dst by simp
  have 2: "files w2 MODEL_SRC = Some (File c)"
    using fr[of MODEL_SRC] c(1) by (simp add: MODEL_SRC_neq)
  have 3: "(files w2 (version_path ts) \<noteq> None) = (ts = now e \<or> files w (version_path ts) \<noteq> None)" for ts
  proof (cases "ts = now e")
    case True
    with c show ?thesis by simp
  next
    case False
    then have "files w2 (version_path ts) = files w (version_path ts)"
      using fr[of "version_path ts"] w1[of "version_path ts"]
      by (simp add: version_path_inj version_path_neq)
    with False show ?thesis by simp
  qed
  have 4: "files w2 META_PATH = files w META_PATH"
    using fr[of META_PATH] w1[of META_PATH] by (simp add: META_PATH_neq)
  show thesis
    using that[OF saved(1) saved(8) 1 _ 3 4] c(2) 2 by blast
qed simp_all

lemma retrain_once_not_True:
  assumes "retrain_once e w = (r, w')" and "r \<noteq> Inr True"
  shows "(log w' = log w \<or> log w' = log w @ [Spawn]) \<and> files w' META_PATH = files w META_PATH"
  using assms(1)
proof (cases rule: retrain_once_elim)
  case noop
  then show ?thesis by simp
next
  case (raised x)
  then show ?thesis by simp
next
  case (train_failed m)
  then show ?thesis using rts_files[of META_PATH e w] rts_log[of e w] by (simp add: META_PATH_neq)
next
  case (save_failed proc w1 x)
  from smv_Inl[OF save_failed(3), unfolded dst_is_version_path]
  have "log w' = log w1" "files w' META_PATH = files w1 META_PATH"
    by (simp_all add: META_PATH_neq)
  then show ?thesis
    using rts_Inr[OF save_failed(1)] rts_files[of META_PATH e w] save_failed(1)
    by (simp add: META_PATH_neq)
next
  case (saved cur m proc w1 dst w2)
  with assms show ?thesis by simp
qed

lemma cycle_events_shape:
  "cycle_events e w = [] \<or> cycle_events e w = [Spawn] \<or>
   (\<exists>v. file_md5 e w DATA_PATH = Inr v \<and> fst (retrain_once e w) = Inr True \<and>
     (cycle_events e w = [Spawn, Saved (version_path (now e)), Meta_call v]
        \<and> files (snd (retrain_once e w)) META_PATH = files w META_PATH \<or>
      cycle_events e w = [Spawn, Saved (version_path (now e)), Meta_call v, Meta_ok v]
        \<and> files (snd (retrain_once e w)) META_PATH = Some (File v)))"
proof -
  obtain r w' where rw: "retrain_once e w = (r, w')" by (cases "retrain_once e w")
  show ?thesis
  proof (cases "r = Inr True")
    case False
    from retrain_once_not_True[OF rw False] rw show ?thesis
      by (auto simp: cycle_events_def)
  next
    case True
    with rw have "retrain_once e w = (Inr True, w')" by simp
    then show ?thesis
    proof (cases rule: retrain_once_True)
      case (1 cur w2)
      then show ?thesis
        using rw True wma_log[of "meta_env e" cur w2] wma_meta[of "meta_env e" cur w2]
        by (auto simp: cycle_events_def)
    qed
  qed
qed

text \<open>
  C6. In a cycle that returns \<open>True\<close> and whose metadata write succeeds, the value
  written is the fingerprint \<open>file_md5\<close> computed from the dataset in the world the
  cycle started in; it is the one value the cycle passed to the metadata write, and
  it is the content of the marker file afterwards.
\<close>

theorem marker_is_cycle_fingerprint:
  assumes "fst (retrain_once e w) = Inr True" and "Meta_ok v \<in> set (cycle_events e w)"
  shows "file_md5 e w DATA_PATH = Inr v
    \<and> files (snd (retrain_once e w)) META_PATH = Some (File v)
    \<and> cycle_events e w = [Spawn, Saved (version_path (now e)), Meta_call v, Meta_ok v]"
  using cycle_events_shape[of e w] assms by auto

lemma cycle_save_first: "save_first False (cycle_events e w)"
  using cycle_events_shape[of e w] by auto

lemma wma_keeps:
  "p \<noteq> META_PATH \<Longrightarrow> (\<And>n. p \<noteq> tmp_file (parent META_PATH) n) \<Longrightarrow>
   files (snd (write_meta_atomic we v w)) p = files w p"
  using wma_touched[of we v w p] by blast

lemma retrain_once_True_store:
  assumes "retrain_once e w = (Inr True, w')"
  shows "(\<exists>c. files w' (version_path (now e)) = Some (File c) \<and> files w' MODEL_SRC = Some (File c))
    \<and> versions (files w') = insert (now e) (versions (files w))"
  using assms
proof (cases rule: retrain_once_True)
  case (1 cur w2)
  have v: "files w' (version_path ts) = files w2 (version_path ts)" for ts
    unfolding 1(2) by (rule wma_keeps) (simp_all add: version_path_neq)
  have m: "files w' MODEL_SRC = files w2 MODEL_SRC"
    unfolding 1(2) by (rule wma_keeps) (simp_all add: MODEL_SRC_neq)
  have "versions (files w') = insert (now e) (versions (files w))"
    using 1(5) by (auto simp: versions_def v)
  with 1(4) v m show ?thesis by simp
qed

text \<open>
  C4 (amended). When the version save succeeds and the metadata write fails, the cycle
  returns \<open>True\<close>, the version file named by the cycle's timestamp is in the store with
  the content of the model file, the marker is unchanged, and the versions in the store
  are those from before the cycle together with that one: exactly one more when no
  version of that name existed, and no more when one did (the copy overwrote it).
\<close>

theorem version_kept_when_marker_write_fails:
  assumes "list_ex is_Saved (cycle_events e w)" and "\<not> list_ex is_Meta_ok (cycle_events e w)"
  shows "fst (retrain_once e w) = Inr True
    \<and> (\<exists>c. files (snd (retrain_once e w)) (version_path (now e)) = Some (File c)
            \<and> files (snd (retrain_once e w)) MODEL_SRC = Some (File c))
    \<and> versions (files (snd (retrain_once e w))) = insert (now e) (versions (files w))
    \<and> files (snd (retrain_once e w)) META_PATH = files w META_PATH"
proof -
  from cycle_events_shape[of e w] assms
  have t: "fst (retrain_once e w) = Inr True"
    and m: "files (snd (retrain_once e w)) META_PATH = files w META_PATH"
    by auto
  then have "retrain_once e w = (Inr True, snd (retrain_once e w))"
    by (metis prod.collapse)
  from retrain_once_True_store[OF this] t m show ?thesis by simp
qed

text \<open>
  C3 (amended). For every marker string and every point of failure, after
  \<open>write_meta_atomic\<close> the marker file holds the new string if the call returned
  normally and its previous entry (or none) otherwise; the only other path the call can
  change is a temporary file in the marker's directory; and no temporary file remains
  when the call returned normally or the removal in the \<open>finally\<close> block did not fail.
\<close>

theorem write_meta_atomic_all_or_nothing:
  "files (snd (write_meta_atomic we v w)) META_PATH =
     (if fst (write_meta_atomic we v w) = Inr () then Some (File v) else files w META_PATH)
   \<and> (\<forall>p. files (snd (write_meta_atomic we v w)) p \<noteq> files w p \<longrightarrow>
          p = META_PATH \<or> (\<exists>n. n \<in> set (tmp_names we) \<and> p = tmp_file (parent META_PATH) n))
   \<and> (fst (write_meta_atomic we v w) = Inr () \<or> \<not> remove_err we \<longrightarrow>
        (\<forall>p. p \<noteq> META_PATH \<longrightarrow> files (snd (write_meta_atomic we v w)) p = files w p))"
  using wma_meta[of we v w] wma_touched[of we v w] wma_frame[of _ we v w] by blast

lemma acquire_lock_frame:
  "log (snd (acquire_lock e w)) = log w"
  "p \<noteq> LOCKFILE \<Longrightarrow> files (snd (acquire_lock e w)) p = files w p"
  by (simp_all add: acquire_lock_def put_def)

lemma release_lock_frame:
  "log (release_lock e w) = log w"
  "p \<noteq> LOCKFILE \<Longrightarrow> files (release_lock e w) p = files w p"
  by (simp_all add: release_lock_def del_def)

lemma retrain_once_log: "log (snd (retrain_once e w)) = log w @ cycle_events e w"
proof -
  obtain r w' where rw: "retrain_once e w = (r, w')" by (cases "retrain_once e w")
  show ?thesis
  proof (cases "r = Inr True")
    case False
    from retrain_once_not_True[OF rw False] rw show ?thesis
      by (auto simp: cycle_events_def)
  next
    case True
    with rw have "retrain_once e w = (Inr True, w')" by simp
    then show ?thesis
    proof (cases rule: retrain_once_True)
      case (1 cur w2)
      then show ?thesis
        using rw wma_log[of "meta_env e" cur w2] by (simp add: cycle_events_def)
    qed
  qed
qed

subsection \<open>The properties at concrete worlds\<close>

lemmas path_defs = DATA_PATH_def META_PATH_def MODELS_DIR_def MODEL_SRC_def TRAIN_SCRIPT_def
  LOCKFILE_def joinpath_def tmp_file_def parent_def version_path_def

lemmas op_defs = retrain_once_def file_md5_def read_meta_def run_training_script_def
  child_wrote_def save_model_version_def copy2_def update_latest_def write_meta_atomic_def
  cleanup_tmp_def acquire_lock_def release_lock_def emit_def put_def del_def exists_path_def
  Let_def

lemmas world_defs = env_ok_def wenv_ok_def world_new_def world_trained_def world_same_second_def
  world_no_dataset_def
  env_exit1_def env_replace_fails_def env_marker_unreadable_def wenv_write_fails_def
  wenv_remove_fails_def args_single_def args_forced_def args_watch_def

lemma strip_digest: "strip ''900150983cd24fb0d6963f7d28e17f72'' = ''900150983cd24fb0d6963f7d28e17f72''"
  by (rule strip_fingerprint) (simp add: fingerprint_form_def hexdigit_def)

theorem unchanged_dataset_is_noop_witness:
  "file_md5 env_ok world_trained DATA_PATH = Inr ''900150983cd24fb0d6963f7d28e17f72''
   \<and> read_meta env_ok world_trained = Inr (Some ''900150983cd24fb0d6963f7d28e17f72'')
   \<and> retrain_once env_ok world_trained = (Inr False, world_trained)
   \<and> cycle_events env_ok world_trained = []"
proof -
  have 1: "file_md5 env_ok world_trained DATA_PATH = Inr ''900150983cd24fb0d6963f7d28e17f72''"
    by (simp add: file_md5_def world_defs path_defs)
  have 2: "read_meta env_ok world_trained = Inr (Some ''900150983cd24fb0d6963f7d28e17f72'')"
    by (simp add: read_meta_def exists_path_def world_defs path_defs strip_digest)
  from unchanged_dataset_is_noop[OF 1 2] 1 2 show ?thesis by simp
qed

lemma read_meta_world_new: "read_meta e world_new = Inr None"
  by (simp add: read_meta_def exists_path_def world_defs path_defs)

theorem failed_training_mutates_nothing_witness:
  "training_failed env_exit1 world_new
   \<and> read_meta env_exit1 world_new = Inr None
   \<and> fst (retrain_once env_exit1 world_new) = Inr False
   \<and> files (snd (retrain_once env_exit1 world_new)) META_PATH = files world_new META_PATH
   \<and> versions (files (snd (retrain_once env_exit1 world_new))) = versions (files world_new)
   \<and> \<not> list_ex is_Saved (cycle_events env_exit1 world_new)"
proof -
  have 1: "training_failed env_exit1 world_new"
    by (simp add: training_failed_def run_training_script_def exists_path_def child_wrote_def
        emit_def world_defs path_defs)
  from failed_training_mutates_nothing[OF 1 read_meta_world_new] 1 read_meta_world_new
  show ?thesis by simp
qed

lemma cycle_new_ok:
  "cycle_events env_ok world_new =
     [Spawn, Saved (version_path (now env_ok)), Meta_call ''900150983cd24fb0d6963f7d28e17f72'',
      Meta_ok ''900150983cd24fb0d6963f7d28e17f72'']"
  by (simp add: cycle_events_def op_defs world_defs path_defs)

theorem marker_is_cycle_fingerprint_witness:
  "fst (retrain_once env_ok world_new) = Inr True
   \<and> Meta_ok ''900150983cd24fb0d6963f7d28e17f72'' \<in> set (cycle_events env_ok world_new)
   \<and> file_md5 env_ok world_new DATA_PATH = Inr ''900150983cd24fb0d6963f7d28e17f72''
   \<and> files (snd (retrain_once env_ok world_new)) META_PATH
       = Some (File ''900150983cd24fb0d6963f7d28e17f72'')"
proof -
  have 1: "fst (retrain_once env_ok world_new) = Inr True"
    by (simp add: op_defs world_defs path_defs)
  have 2: "Meta_ok ''900150983cd24fb0d6963f7d28e17f72'' \<in> set (cycle_events env_ok world_new)"
    by (simp add: cycle_new_ok)
  from marker_is_cycle_fingerprint[OF 1 2] 1 2 show ?thesis by simp
qed

lemma cycle_new_replace_fails:
  "cycle_events env_replace_fails world_new =
     [Spawn, Saved (version_path ''20240101T000000Z''), Meta_call ''900150983cd24fb0d6963f7d28e17f72'']"
  by (simp add: cycle_events_def op_defs world_defs path_defs)

lemma cycle_same_second_replace_fails:
  "cycle_events env_replace_fails world_same_second =
     [Spawn, Saved (version_path ''20240101T000000Z''), Meta_call ''900150983cd24fb0d6963f7d28e17f72'']"
  by (simp add: cycle_events_def op_defs world_defs path_defs)

lemma now_replace_fails: "now env_replace_fails = ''20240101T000000Z''"
  by (simp add: world_defs)

theorem version_kept_when_marker_write_fails_witness:
  "list_ex is_Saved (cycle_events env_replace_fails world_new)
   \<and> \<not> list_ex is_Meta_ok (cycle_events env_replace_fails world_new)
   \<and> fst (retrain_once env_replace_fails world_new) = Inr True
   \<and> versions (files (snd (retrain_once env_replace_fails world_new)))
       = insert ''20240101T000000Z'' (versions (files world_new))
   \<and> ''20240101T000000Z'' \<notin> versions (files world_new)"
proof -
  have 1: "list_ex is_Saved (cycle_events env_replace_fails world_new)"
    by (simp add: cycle_new_replace_fails)
  have 2: "\<not> list_ex is_Meta_ok (cycle_events env_replace_fails world_new)"
    by (simp add: cycle_new_replace_fails)
  have 3: "''20240101T000000Z'' \<notin> versions (files world_new)"
    by (simp add: versions_def world_defs path_defs)
  from version_kept_when_marker_write_fails[OF 1 2] 1 2 3 show ?thesis
    by (simp add: now_replace_fails)
qed

text \<open>
  C4 as stated fails when the store already holds a version named by the same second:
  the save succeeds, the metadata write fails, the cycle returns \<open>True\<close>, and the store
  holds the same versions as before, not one more.
\<close>

theorem same_second_adds_no_version:
  "list_ex is_Saved (cycle_events env_replace_fails world_same_second)
   \<and> \<not> list_ex is_Meta_ok (cycle_events env_replace_fails world_same_second)
   \<and> fst (retrain_once env_replace_fails world_same_second) = Inr True
   \<and> versions (files (snd (retrain_once env_replace_fails world_same_second)))
       = versions (files world_same_second)"
proof -
  have 1: "fst (retrain_once env_replace_fails world_same_second) = Inr True"
    by (simp add: op_defs world_defs path_defs)
  then have "retrain_once env_replace_fails world_same_second =
      (Inr True, snd (retrain_once env_replace_fails world_same_second))"
    by (metis prod.collapse)
  from retrain_once_True_store[OF this]
  have "versions (files (snd (retrain_once env_replace_fails world_same_second)))
      = insert ''20240101T000000Z'' (versions (files world_same_second))"
    by (simp add: now_replace_fails)
  moreover have "''20240101T000000Z'' \<in> versions (files world_same_second)"
    by (simp add: versions_def world_defs)
  ultimately show ?thesis using 1 by (auto simp: cycle_same_second_replace_fails)
qed

theorem write_meta_atomic_all_or_nothing_witness:
  "fst (write_meta_atomic wenv_write_fails ''0cc175b9c0f1b6a831c399e269772661'' world_trained) = Inl OSError
   \<and> \<not> remove_err wenv_write_fails
   \<and> files (snd (write_meta_atomic wenv_write_fails ''0cc175b9c0f1b6a831c399e269772661'' world_trained))
        META_PATH = Some (File ''900150983cd24fb0d6963f7d28e17f72'')
   \<and> files (snd (write_meta_atomic wenv_write_fails ''0cc175b9c0f1b6a831c399e269772661'' world_trained))
        (tmp_file (parent META_PATH) ''k3x9q2ab'') = None"
proof -
  have 1: "fst (write_meta_atomic wenv_write_fails ''0cc175b9c0f1b6a831c399e269772661'' world_trained) = Inl OSError"
    by (simp add: op_defs world_defs path_defs)
  have 2: "\<not> remove_err wenv_write_fails" by (simp add: world_defs)
  have 3: "files world_trained META_PATH = Some (File ''900150983cd24fb0d6963f7d28e17f72'')"
    by (simp add: world_defs path_defs)
  have 4: "files world_trained (tmp_file (parent META_PATH) ''k3x9q2ab'') = None"
    by (simp add: world_defs path_defs)
  have 5: "tmp_file (parent META_PATH) ''k3x9q2ab'' \<noteq> META_PATH" by (rule tmp_neq_META)
  from write_meta_atomic_all_or_nothing[of wenv_write_fails "''0cc175b9c0f1b6a831c399e269772661''" world_trained]
    1 2 3 4 5 show ?thesis by simp
qed

text \<open>
  C3 as stated fails where the removal in the \<open>finally\<close> block raises: the write failed
  after four characters, the exception of \<open>os.remove\<close> is swallowed, and the temporary
  file, absent before the call, remains with the partial content.
\<close>

theorem failed_removal_leaves_temporary_file:
  "fst (write_meta_atomic wenv_remove_fails ''0cc175b9c0f1b6a831c399e269772661'' world_trained) = Inl OSError
   \<and> files world_trained ''data/tmpk3x9q2ab'' = None
   \<and> files (snd (write_meta_atomic wenv_remove_fails ''0cc175b9c0f1b6a831c399e269772661'' world_trained))
        ''data/tmpk3x9q2ab'' = Some (File ''0cc1'')"
  by (simp add: op_defs world_defs path_defs)

subsection \<open>The runs of main\<close>

lemma watch_loop_cycles:
  "log (snd (watch_loop polls w)) = log w @ concat (watch_cycles polls w)"
proof (induction polls arbitrary: w)
  case Nil
  show ?case by simp
next
  case (Cons e es)
  obtain b w1 where a: "acquire_lock e w = (b, w1)" by (cases "acquire_lock e w")
  then have l1: "log w1 = log w" using acquire_lock_frame(1)[of e w] by simp
  show ?case
  proof (cases b)
    case False
    with a Cons[of w1] l1 show ?thesis by simp
  next
    case True
    obtain r w2 where r: "retrain_once e w1 = (r, w2)" by (cases "retrain_once e w1")
    then have l2: "log w2 = log w @ cycle_events e w1"
      using retrain_once_log[of e w1] l1 by simp
    show ?thesis
    proof (cases r)
      case (Inl x)
      with a True r l2 show ?thesis by (simp add: release_lock_frame)
    next
      case (Inr c)
      with a True r l2 Cons[of "release_lock e w2"] show ?thesis
        by (simp add: release_lock_frame)
    qed
  qed
qed

lemma watch_cycles_save_first: "list_all (save_first False) (watch_cycles polls w)"
  by (induction polls arbitrary: w) (auto simp: cycle_save_first split: sum.splits)

lemma main_events_eq:
  "main_events a fe e polls w =
     (if watch a then concat (watch_cycles polls w)
      else if \<not> fst (acquire_lock e w) then []
      else if once a then
        Meta_call ''__FORCE__'' #
        (if fst (write_meta_atomic fe ''__FORCE__'' (snd (acquire_lock e w))) = Inr ()
         then Meta_ok ''__FORCE__'' #
              cycle_events e (snd (write_meta_atomic fe ''__FORCE__'' (snd (acquire_lock e w))))
         else [])
      else cycle_events e (snd (acquire_lock e w)))"
proof (cases "watch a")
  case True
  then show ?thesis by (simp add: main_events_def main_def watch_loop_cycles)
next
  case nw: False
  obtain b w1 where a: "acquire_lock e w = (b, w1)" by (cases "acquire_lock e w")
  then have l1: "log w1 = log w" using acquire_lock_frame(1)[of e w] by simp
  show ?thesis
  proof (cases b)
    case False
    with nw a l1 show ?thesis by (simp add: main_events_def main_def)
  next
    case b: True
    show ?thesis
    proof (cases "once a")
      case False
      obtain r w3 where c: "retrain_once e w1 = (r, w3)" by (cases "retrain_once e w1")
      then have "log w3 = log w @ cycle_events e w1"
        using retrain_once_log[of e w1] l1 by simp
      then show ?thesis
        using nw a b False c
        by (cases r) (simp_all add: main_events_def main_def release_lock_frame)
    next
      case o: True
      obtain r2 w2 where f: "write_meta_atomic fe ''__FORCE__'' w1 = (r2, w2)"
        by (cases "write_meta_atomic fe ''__FORCE__'' w1")
      show ?thesis
      proof (cases r2)
        case (Inl x)
        then have "log w2 = log w @ [Meta_call ''__FORCE__'']"
          using wma_log[of fe "''__FORCE__''" w1] f l1 by simp
        then show ?thesis
          using nw a b o f Inl by (simp add: main_events_def main_def release_lock_frame)
      next
        case (Inr u)
        then have "log w2 = log w @ [Meta_call ''__FORCE__'', Meta_ok ''__FORCE__'']"
          using wma_log[of fe "''__FORCE__''" w1] f l1 by simp
        moreover obtain r w3 where c: "retrain_once e w2 = (r, w3)"
          by (cases "retrain_once e w2")
        ultimately have "log w3 =
            log w @ [Meta_call ''__FORCE__'', Meta_ok ''__FORCE__''] @ cycle_events e w2"
          using retrain_once_log[of e w2] by simp
        then show ?thesis
          using nw a b o f Inr c
          by (cases r) (simp_all add: main_events_def main_def release_lock_frame)
      qed
    qed
  qed
qed

text \<open>
  C1 (amended). Within every cycle, a call of the metadata write comes after a completed
  save of that cycle: this holds of \<open>retrain_once\<close> alone and of every cycle a watch loop
  runs. The events of \<open>main\<close> are exactly the events of the cycles it runs (the polls
  of watch mode, or the one cycle of a single run under the lock), preceded in forced
  mode, and only there, by the write of the sentinel \<open>__FORCE__\<close>, which no save
  precedes: \<open>main\<close> calls the metadata write nowhere else.
\<close>

theorem save_precedes_marker_write:
  "save_first False (cycle_events e w)
   \<and> list_all (save_first False) (watch_cycles polls w)
   \<and> main_events a fe e polls w =
       (if watch a then concat (watch_cycles polls w)
        else if \<not> fst (acquire_lock e w) then []
        else if once a then
          Meta_call ''__FORCE__'' #
          (if fst (write_meta_atomic fe ''__FORCE__'' (snd (acquire_lock e w))) = Inr ()
           then Meta_ok ''__FORCE__'' #
                cycle_events e (snd (write_meta_atomic fe ''__FORCE__'' (snd (acquire_lock e w))))
           else [])
        else cycle_events e (snd (acquire_lock e w)))"
  using cycle_save_first[of e w] watch_cycles_save_first[of polls w]
    main_events_eq[of a fe e polls w] by simp

lemma strip_FORCE: "strip ''__FORCE__'' = ''__FORCE__''"
  by (rule strip_id) (auto simp: isspace_def)

lemma main_forced_new:
  "main_events args_forced wenv_ok env_ok [] world_new =
     [Meta_call ''__FORCE__'', Meta_ok ''__FORCE__'', Spawn,
      Saved (version_path ''20240101T000000Z''),
      Meta_call ''900150983cd24fb0d6963f7d28e17f72'', Meta_ok ''900150983cd24fb0d6963f7d28e17f72'']"
  by (simp add: main_events_def main_def op_defs world_defs path_defs strip_FORCE)

text \<open>
  C1 as stated fails in forced mode: \<open>main\<close> calls the metadata write with the sentinel
  before the cycle, when nothing has been saved.
\<close>

theorem forced_mode_writes_marker_before_save:
  "\<not> save_first False (main_events args_forced wenv_ok env_ok [] world_new)"
  by (simp add: main_forced_new)

lemma acquire_new: "fst (acquire_lock env_ok world_new)"
  by (simp add: op_defs world_defs path_defs)

lemma cycle_locked_new:
  "cycle_events env_ok (snd (acquire_lock env_ok world_new)) =
     [Spawn, Saved (version_path ''20240101T000000Z''),
      Meta_call ''900150983cd24fb0d6963f7d28e17f72'', Meta_ok ''900150983cd24fb0d6963f7d28e17f72'']"
  by (simp add: cycle_events_def op_defs world_defs path_defs)

theorem save_precedes_marker_write_witness:
  "save_first False (cycle_events env_ok world_new)
   \<and> main_events args_single wenv_ok env_ok [] world_new =
       [Spawn, Saved (version_path ''20240101T000000Z''),
        Meta_call ''900150983cd24fb0d6963f7d28e17f72'', Meta_ok ''900150983cd24fb0d6963f7d28e17f72'']
   \<and> main_events args_watch wenv_ok env_ok [env_ok] world_new =
       concat (watch_cycles [env_ok] world_new)
   \<and> watch_cycles [env_ok] world_new =
       [[Spawn, Saved (version_path ''20240101T000000Z''),
        Meta_call ''900150983cd24fb0d6963f7d28e17f72'', Meta_ok ''900150983cd24fb0d6963f7d28e17f72'']]"
proof -
  have s: "\<not> watch args_single" "\<not> once args_single" "watch args_watch"
    by (simp_all add: world_defs)
  have w: "watch_cycles [env_ok] world_new =
       [[Spawn, Saved (version_path ''20240101T000000Z''),
        Meta_call ''900150983cd24fb0d6963f7d28e17f72'', Meta_ok ''900150983cd24fb0d6963f7d28e17f72'']]"
    using acquire_new by (simp add: cycle_locked_new) (simp add: op_defs world_defs path_defs)
  from save_precedes_marker_write[of env_ok world_new "[]" args_single wenv_ok]
    save_precedes_marker_write[of env_ok world_new "[env_ok]" args_watch wenv_ok]
    s w acquire_new cycle_locked_new
  show ?thesis by simp
qed

subsection \<open>Forced mode, and an unreadable marker\<close>

lemma fingerprint_not_sentinel: "fingerprint_form d \<Longrightarrow> d \<noteq> ''__FORCE__''"
  by (auto simp: fingerprint_form_def)

lemma training_reached:
  assumes d: "file_md5 e w DATA_PATH = Inr d" and m: "read_meta e w = Inr m" and ne: "m \<noteq> Some d"
    and s: "exists_path w TRAIN_SCRIPT" and t: "train e \<noteq> Launch_error"
  shows "\<exists>es. cycle_events e w = Spawn # es"
proof -
  obtain x w1 where rts: "run_training_script e w = (x, w1)"
    by (cases "run_training_script e w")
  with s t have l1: "log w1 = log w @ [Spawn]"
    by (auto simp: run_training_script_def child_wrote_def put_def emit_def
        split: train_result.splits option.splits)
  obtain r w' where rw: "retrain_once e w = (r, w')" by (cases "retrain_once e w")
  then have "\<exists>es. log w' = log w @ Spawn # es"
  proof (cases rule: retrain_once_elim)
    case noop
    with d m ne show ?thesis
      by (auto simp: file_md5_def exists_path_def split: option.splits)
  next
    case (raised x)
    with m show ?thesis by simp
  next
    case (train_failed m)
    with rts l1 show ?thesis by simp
  next
    case (save_failed proc w1' x)
    with rts l1 smv_Inl[OF save_failed(3)] show ?thesis by simp
  next
    case (saved cur m' proc w1' dst w2)
    with rts l1 smv_Inr[OF saved(6)] wma_log[of "meta_env e" cur w2] show ?thesis by simp
  qed
  with rw show ?thesis by (auto simp: cycle_events_def)
qed

lemma sentinel_forces_training:
  assumes "files u META_PATH = Some (File ''__FORCE__'')"
    and "file_md5 e' u DATA_PATH = Inr d" and "fingerprint_form d" and "\<not> meta_read_err e'"
    and "exists_path u TRAIN_SCRIPT" and "train e' \<noteq> Launch_error"
  shows "read_meta e' u = Inr (Some ''__FORCE__'') \<and> list_ex is_Spawn (cycle_events e' u)"
proof -
  have rm: "read_meta e' u = Inr (Some ''__FORCE__'')"
    using assms(1,4) by (simp add: read_meta_def exists_path_def strip_FORCE)
  have "Some ''__FORCE__'' \<noteq> Some d"
    using fingerprint_not_sentinel[OF assms(3)] by simp
  from training_reached[OF assms(2) rm this assms(5,6)] rm show ?thesis by auto
qed

text \<open>
  C10. In forced mode \<open>main\<close> writes the sentinel \<open>__FORCE__\<close> over the marker before the
  cycle. When that write succeeded and the cycle then does not complete, at whatever
  stage (the dataset is missing or unreadable, training fails, the model file is
  missing, or the cycle raises), the marker file holds \<open>__FORCE__\<close> when \<open>main\<close> returns,
  whatever it held before. And a later cycle that finds this marker, in any world where
  the dataset and the training script are there, starts the training child, whatever
  the fingerprint of the dataset is.
\<close>

theorem forced_failure_leaves_sentinel:
  assumes "once a" and "\<not> watch a" and "fst (acquire_lock e w)"
    and "fst (write_meta_atomic fe ''__FORCE__'' (snd (acquire_lock e w))) = Inr ()"
    and "fst (retrain_once e (snd (write_meta_atomic fe ''__FORCE__'' (snd (acquire_lock e w)))))
           \<noteq> Inr True"
  shows "files (snd (main a fe e polls w)) META_PATH = Some (File ''__FORCE__'')
    \<and> (\<forall>e' u d. files u META_PATH = files (snd (main a fe e polls w)) META_PATH
            \<and> file_md5 e' u DATA_PATH = Inr d \<and> fingerprint_form d \<and> \<not> meta_read_err e'
            \<and> exists_path u TRAIN_SCRIPT \<and> train e' \<noteq> Launch_error
          \<longrightarrow> read_meta e' u = Inr (Some ''__FORCE__'')
              \<and> list_ex is_Spawn (cycle_events e' u))"
proof -
  obtain w1 where a: "acquire_lock e w = (True, w1)"
    using assms(3) by (cases "acquire_lock e w") auto
  obtain w2 where f: "write_meta_atomic fe ''__FORCE__'' w1 = (Inr (), w2)"
    using assms(4) a by (cases "write_meta_atomic fe ''__FORCE__'' w1") auto
  obtain r w3 where c: "retrain_once e w2 = (r, w3)" by (cases "retrain_once e w2")
  with assms(5) a f have r: "r \<noteq> Inr True" by simp
  have m2: "files w2 META_PATH = Some (File ''__FORCE__'')"
    using wma_meta[of fe "''__FORCE__''" w1] f by simp
  have m3: "files w3 META_PATH = Some (File ''__FORCE__'')"
    using retrain_once_not_True[OF c r] m2 by simp
  have "snd (main a fe e polls w) = release_lock e w3"
    using assms(1,2) a f c by (cases r) (simp_all add: main_def)
  then have mf: "files (snd (main a fe e polls w)) META_PATH = Some (File ''__FORCE__'')"
    using m3 by (simp add: release_lock_frame META_PATH_neq)
  then show ?thesis using sentinel_forces_training by simp
qed

theorem forced_failure_leaves_sentinel_witness:
  "once args_forced \<and> \<not> watch args_forced
   \<and> files world_no_dataset DATA_PATH = None
   \<and> files world_no_dataset META_PATH = Some (File ''900150983cd24fb0d6963f7d28e17f72'')
   \<and> fst (acquire_lock env_ok world_no_dataset)
   \<and> fst (write_meta_atomic wenv_ok ''__FORCE__'' (snd (acquire_lock env_ok world_no_dataset))) = Inr ()
   \<and> fst (retrain_once env_ok
          (snd (write_meta_atomic wenv_ok ''__FORCE__'' (snd (acquire_lock env_ok world_no_dataset)))))
        = Inr False
   \<and> files (snd (main args_forced wenv_ok env_ok [] world_no_dataset)) META_PATH
        = Some (File ''__FORCE__'')
   \<and> fst (acquire_lock env_exit1 world_trained)
   \<and> fst (write_meta_atomic wenv_ok ''__FORCE__'' (snd (acquire_lock env_exit1 world_trained))) = Inr ()
   \<and> fst (retrain_once env_exit1
          (snd (write_meta_atomic wenv_ok ''__FORCE__'' (snd (acquire_lock env_exit1 world_trained)))))
        = Inr False
   \<and> files (snd (main args_forced wenv_ok env_exit1 [] world_trained)) META_PATH
        = Some (File ''__FORCE__'')
   \<and> file_md5 env_ok (snd (main args_forced wenv_ok env_exit1 [] world_trained)) DATA_PATH
        = Inr ''900150983cd24fb0d6963f7d28e17f72''
   \<and> fingerprint_form ''900150983cd24fb0d6963f7d28e17f72''
   \<and> \<not> meta_read_err env_ok
   \<and> exists_path (snd (main args_forced wenv_ok env_exit1 [] world_trained)) TRAIN_SCRIPT
   \<and> train env_ok \<noteq> Launch_error
   \<and> list_ex is_Spawn (cycle_events env_ok (snd (main args_forced wenv_ok env_exit1 [] world_trained)))"
proof -
  have 1: "once args_forced" and 2: "\<not> watch args_forced" by (simp_all add: world_defs)
  have d: "files world_no_dataset DATA_PATH = None"
    "files world_no_dataset META_PATH = Some (File ''900150983cd24fb0d6963f7d28e17f72'')"
    by (simp_all add: world_defs path_defs)
  have a3: "fst (acquire_lock env_ok world_no_dataset)"
    by (simp add: op_defs world_defs path_defs)
  have a4: "fst (write_meta_atomic wenv_ok ''__FORCE__'' (snd (acquire_lock env_ok world_no_dataset))) = Inr ()"
    by (simp add: op_defs world_defs path_defs)
  have a5: "fst (retrain_once env_ok
          (snd (write_meta_atomic wenv_ok ''__FORCE__'' (snd (acquire_lock env_ok world_no_dataset)))))
        = Inr False"
    by (simp add: op_defs world_defs path_defs)
  then have a5n: "fst (retrain_once env_ok
          (snd (write_meta_atomic wenv_ok ''__FORCE__'' (snd (acquire_lock env_ok world_no_dataset)))))
        \<noteq> Inr True" by simp
  have 3: "fst (acquire_lock env_exit1 world_trained)"
    by (simp add: op_defs world_defs path_defs)
  have 4: "fst (write_meta_atomic wenv_ok ''__FORCE__'' (snd (acquire_lock env_exit1 world_trained))) = Inr ()"
    by (simp add: op_defs world_defs path_defs)
  have 5: "fst (retrain_once env_exit1
          (snd (write_meta_atomic wenv_ok ''__FORCE__'' (snd (acquire_lock env_exit1 world_trained)))))
        = Inr False"
    by (simp add: op_defs world_defs path_defs strip_FORCE)
  then have n5: "fst (retrain_once env_exit1
          (snd (write_meta_atomic wenv_ok ''__FORCE__'' (snd (acquire_lock env_exit1 world_trained)))))
        \<noteq> Inr True" by simp
  have 6: "file_md5 env_ok (snd (main args_forced wenv_ok env_exit1 [] world_trained)) DATA_PATH
        = Inr ''900150983cd24fb0d6963f7d28e17f72''"
    by (simp add: main_def op_defs world_defs path_defs strip_FORCE)
  have 7: "fingerprint_form ''900150983cd24fb0d6963f7d28e17f72''"
    by (simp add: fingerprint_form_def hexdigit_def)
  have 8: "\<not> meta_read_err env_ok" and 10: "train env_ok \<noteq> Launch_error"
    by (simp_all add: world_defs)
  have 9: "exists_path (snd (main args_forced wenv_ok env_exit1 [] world_trained)) TRAIN_SCRIPT"
    by (simp add: main_def op_defs world_defs path_defs strip_FORCE)
  note A = forced_failure_leaves_sentinel[OF 1 2 a3 a4 a5n, of "[]"]
  note B = forced_failure_leaves_sentinel[OF 1 2 3 4 n5, of "[]"]
  from B have "list_ex is_Spawn
      (cycle_events env_ok (snd (main args_forced wenv_ok env_exit1 [] world_trained)))"
    using 6 7 8 9 10 by blast
  with A B 1 2 d a3 a4 a5 3 4 5 6 7 8 9 10 show ?thesis by simp
qed

text \<open>
  C8, at the failing input: the marker file is there and \<open>read_text\<close> raises. The call
  of \<open>read_meta\<close> is outside every \<open>try\<close>, so the exception leaves \<open>retrain_once\<close> and
  ends the watch loop with a poll unserved; the same failure on the dataset read is
  caught and gives \<open>False\<close>.
\<close>

theorem unreadable_marker_escapes_cycle:
  "retrain_once env_marker_unreadable world_trained = (Inl OSError, world_trained)
   \<and> fst (watch_loop [env_marker_unreadable, env_ok] world_trained) = Inl OSError
   \<and> retrain_once (env_ok\<lparr>data_read_err := True\<rparr>) world_trained = (Inr False, world_trained)"
  by (simp add: op_defs world_defs path_defs)

text \<open>
  What an attempt does when it finds the lock token: \<open>acquire_lock\<close> returns \<open>False\<close>,
  and neither a single run nor a poll of the watch loop changes the world.
\<close>

lemma held_lock_skips:
  assumes "exists_path w LOCKFILE"
  shows "acquire_lock e w = (False, w)"
    and "\<not> watch a \<Longrightarrow> main a fe e polls w = (Inr (), w)"
    and "watch_loop [e] w = (Inr (), w)"
  using assms by (simp_all add: acquire_lock_def main_def)

end
